theory Spec2Isabelle
  imports Complex_Main "HOL-Library.Word" "HOL-Library.AList"
begin

section \<open>valhalla\_run\_route: the route test driver\<close>

text \<open>
  The development follows \<^verbatim>\<open>src/valhalla_run_route.cc\<close>. The graph reader, the
  location search, the three path algorithms, the trip path builder, the directions
  builder, the connectivity map and the clock are libraries outside the file; they enter
  as parameters (the record \<open>env\<close> below). The property tree is a small datatype with
  the operations the file calls.
  A C++ \<^verbatim>\<open>float\<close> value is represented by the real number it denotes. The code
  followed here stores such values and passes them on; the one place where it computes with
  them is the straight-line distance, and the rounding addition and multiplication of
  \<^verbatim>\<open>float\<close> enter there as the parameters \<open>float_add\<close> and \<open>float_mul\<close>. The
  counters of the statistics object are \<^verbatim>\<open>uint32_t\<close>, here \<open>32 word\<close>. Vector sizes
  and loop indices are natural numbers.
\<close>

subsection \<open>Locations and candidate edges\<close>

type_synonym graph_id = "64 word"
type_synonym u32 = "32 word"

record location =
  lat :: real
  lng :: real

text \<open>\<^verbatim>\<open>PathLocation::PathEdge\<close>: only the edge identifier is read by this program.\<close>

record path_edge =
  edge_id :: graph_id

text \<open>\<^verbatim>\<open>PathLocation\<close> derives from \<^verbatim>\<open>Location\<close> and adds the correlated edges.\<close>

record path_location = location +
  edges :: "path_edge list"

subsection \<open>The statistics object (lines 42-73)\<close>

record path_statistics =
  origin :: "real \<times> real"
  destination :: "real \<times> real"
  success :: string
  passes :: u32
  runtime :: u32
  trip_time :: u32
  trip_dist :: real
  arc_dist :: real
  manuevers :: u32

definition PathStatistics :: "real \<times> real \<Rightarrow> real \<times> real \<Rightarrow> path_statistics" where
  "PathStatistics p1 p2 =
     \<lparr>origin = p1, destination = p2, success = ''false'', passes = 0, runtime = 0,
      trip_time = 0, trip_dist = 0, arc_dist = 0, manuevers = 0\<rparr>"

definition setSuccess :: "string \<Rightarrow> path_statistics \<Rightarrow> path_statistics" where
  "setSuccess s d = d\<lparr>success := s\<rparr>"

definition incPasses :: "path_statistics \<Rightarrow> path_statistics" where
  "incPasses d = d\<lparr>passes := passes d + 1\<rparr>"

definition addRuntime :: "u32 \<Rightarrow> path_statistics \<Rightarrow> path_statistics" where
  "addRuntime msec d = d\<lparr>runtime := runtime d + msec\<rparr>"

definition setTripTime :: "u32 \<Rightarrow> path_statistics \<Rightarrow> path_statistics" where
  "setTripTime t d = d\<lparr>trip_time := t\<rparr>"

definition setTripDist :: "real \<Rightarrow> path_statistics \<Rightarrow> path_statistics" where
  "setTripDist x d = d\<lparr>trip_dist := x\<rparr>"

definition setArcDist :: "real \<Rightarrow> path_statistics \<Rightarrow> path_statistics" where
  "setArcDist x d = d\<lparr>arc_dist := x\<rparr>"

definition setManuevers :: "u32 \<Rightarrow> path_statistics \<Rightarrow> path_statistics" where
  "setManuevers n d = d\<lparr>manuevers := n\<rparr>"

text \<open>
  \<^verbatim>\<open>log()\<close> feeds eleven arguments to the format
  \<^verbatim>\<open>"%f,%f,%f,%f,%s,%d,%d,%d,%f,%f,%d"\<close>. A logged line is kept as the list of its
  comma-separated fields, each tagged with its conversion.
\<close>

datatype field = Float real | Str string | UInt u32

definition log_stats :: "path_statistics \<Rightarrow> field list" where
  "log_stats d =
     [Float (fst (origin d)), Float (snd (origin d)),
      Float (fst (destination d)), Float (snd (destination d)),
      Str (success d), UInt (passes d), UInt (runtime d), UInt (trip_time d),
      Float (trip_dist d), Float (arc_dist d), UInt (manuevers d)]"

subsection \<open>The property tree and the costing options (get\_costing, lines 356-374)\<close>

text \<open>
  A \<^verbatim>\<open>boost::property_tree::ptree\<close> node: its data and its children in insertion order,
  each under a key. Keys may repeat; \<^verbatim>\<open>find\<close> is taken to give the first child with
  the key.
\<close>

datatype ptree = PTree (pt_data: string) (pt_children: "(string \<times> ptree) list")

definition find_child :: "string \<Rightarrow> ptree \<Rightarrow> ptree option" where
  "find_child k t = map_of (pt_children t) k"

text \<open>
  A path is a string whose fragments are separated by a dot. \<open>split_path\<close> cuts at
  every dot, so it gives one fragment more than there are dots.
\<close>

fun split_path :: "string \<Rightarrow> string list" where
  "split_path [] = [[]]"
| "split_path (c # cs) =
     (if c = CHR ''.'' then [] # split_path cs
      else (case split_path cs of [] \<Rightarrow> [[c]] | f # fs \<Rightarrow> (c # f) # fs))"

text \<open>
  \<^verbatim>\<open>walk_path\<close> takes a fragment off the front while the path is not empty, so an empty
  fragment at the very end of the path is never looked up.
\<close>

definition walk_fragments :: "string \<Rightarrow> string list" where
  "walk_fragments p = (let fs = split_path p in if last fs = [] then butlast fs else fs)"

fun walk_path :: "string list \<Rightarrow> ptree \<Rightarrow> ptree option" where
  "walk_path [] t = Some t"
| "walk_path (k # ks) t =
     (case find_child k t of None \<Rightarrow> None | Some c \<Rightarrow> walk_path ks c)"

definition get_child_optional :: "ptree \<Rightarrow> string \<Rightarrow> ptree option" where
  "get_child_optional t p = walk_path (walk_fragments p) t"

text \<open>
  \<^verbatim>\<open>put_child\<close>: \<^verbatim>\<open>force_path\<close> descends along all fragments but the last, creating
  an empty child where none has the key; under the parent so reached, the first child with
  the last fragment as key is replaced in place, or the new child is appended. (The
  library asserts that the path is not empty and does not end in a dot; the model follows
  a build without assertions there.)
\<close>

fun put_at :: "string list \<Rightarrow> ptree \<Rightarrow> ptree \<Rightarrow> ptree" where
  "put_at [] v t = t"
| "put_at [k] v t = PTree (pt_data t) (AList.update k v (pt_children t))"
| "put_at (k # ks) v t =
     PTree (pt_data t)
       (case find_child k t of
          None \<Rightarrow> pt_children t @ [(k, put_at ks v (PTree [] []))]
        | Some c \<Rightarrow> AList.update k (put_at ks v c) (pt_children t))"

definition put_child :: "string \<Rightarrow> ptree \<Rightarrow> ptree \<Rightarrow> ptree" where
  "put_child p v t = put_at (split_path p) v t"

datatype error = runtime_error string

text \<open>The loop of lines 369-371 over the children of the request's subtree.\<close>

definition merge_options :: "ptree \<Rightarrow> ptree \<Rightarrow> ptree" where
  "merge_options request_costing config_costing =
     fold (\<lambda>r cc. put_child (fst r) (snd r) cc) (pt_children request_costing) config_costing"

text \<open>
  \<open>create\<close> stands for \<^verbatim>\<open>factory.Create\<close>. The function overlays the subtree of
  \<^verbatim>\<open>config\<close> in place; \<^verbatim>\<open>main\<close> reads the subtree of a costing name once only, so
  the cost object is all that is returned here.
\<close>

definition get_costing ::
  "(string \<Rightarrow> ptree \<Rightarrow> 'c) \<Rightarrow> ptree \<Rightarrow> ptree \<Rightarrow> string \<Rightarrow> error + 'c" where
  "get_costing create config request costing =
     (let method_options = ''costing_options.'' @ costing in
      case get_child_optional config method_options of
        None \<Rightarrow> Inl (runtime_error (''No costing method found for '' @ [CHR 0x27] @ costing @ [CHR 0x27]))
      | Some config_costing \<Rightarrow>
          (case get_child_optional request method_options of
             None \<Rightarrow> Inr (create costing config_costing)
           | Some request_costing \<Rightarrow>
               Inr (create costing (merge_options request_costing config_costing))))"

subsection \<open>Choice of the path algorithm (main, lines 655-673)\<close>

text \<open>The three algorithm objects \<^verbatim>\<open>astar\<close>, \<^verbatim>\<open>bd\<close> and \<^verbatim>\<open>mm\<close> of \<^verbatim>\<open>main\<close>.\<close>

datatype algorithm = AStar | Bidirectional | MultiModal

text \<open>
  The nested loops over both candidate lists: every pair with equal identifiers assigns
  \<^verbatim>\<open>&astar\<close>; nothing assigns \<^verbatim>\<open>&bd\<close> again.
\<close>

definition scan_pairs :: "path_edge list \<Rightarrow> path_edge list \<Rightarrow> algorithm \<Rightarrow> algorithm" where
  "scan_pairs es1 es2 pathalgorithm =
     fold (\<lambda>edge1 a1.
             fold (\<lambda>edge2 a2. if edge_id edge1 = edge_id edge2 then AStar else a2) es2 a1)
          es1 pathalgorithm"

definition choose_algorithm :: "string \<Rightarrow> path_location \<Rightarrow> path_location \<Rightarrow> algorithm" where
  "choose_algorithm routetype pl1 pl2 =
     (if routetype = ''multimodal'' then MultiModal
      else if routetype = ''pedestrian'' then Bidirectional
      else scan_pairs (edges pl1) (edges pl2) Bidirectional)"

text \<open>
  The condition of the specification: some candidate of the first waypoint and some
  candidate of the second have the same edge identifier.
\<close>

definition shares_edge :: "path_location \<Rightarrow> path_location \<Rightarrow> bool" where
  "shares_edge pl1 pl2 =
     list_ex (\<lambda>e1. list_ex (\<lambda>e2. edge_id e1 = edge_id e2) (edges pl2)) (edges pl1)"

subsection \<open>The external collaborators\<close>

datatype travel_mode = kDrive | kPedestrian | kBicycle | kPublicTransit

datatype units = kKilometers | kMiles

text \<open>\<^verbatim>\<open>PathInfo\<close>, an element of the vector that \<^verbatim>\<open>GetBestPath\<close> returns.\<close>

record path_info =
  pi_edgeid :: graph_id
  elapsed_time :: u32

text \<open>Of the \<^verbatim>\<open>TripPath\<close> message the program reads the node list only.\<close>

record trip_path =
  node :: "graph_id list"

text \<open>\<^verbatim>\<open>TripDirections\<close>: the summary and the list of maneuvers.\<close>

record trip_directions =
  summary_time :: u32
  summary_length :: real
  maneuver :: "string list"

text \<open>
  What the program does to the path algorithm objects and to the cost object of the
  active mode, in the order it does it. These objects keep hidden state between calls,
  so the result of a search is a function of this history and of the arguments.
\<close>

datatype event =
    GetBestPath algorithm path_location path_location
  | Clear algorithm
  | RelaxHierarchyLimits real real
  | DisableHighwayTransitions

text \<open>
  The collaborators of one run; \<open>'c\<close> is the cost object (\<^verbatim>\<open>DynamicCost\<close>).
  \<^item> \<open>create\<close>: \<^verbatim>\<open>CostFactory::Create\<close>;
  \<^item> \<open>search_location\<close>: \<^verbatim>\<open>loki::Search\<close> with the filters of the cost object,
    \<open>None\<close> when it throws;
  \<^item> \<open>get_colors\<close>: \<^verbatim>\<open>get_colors\<close> of the connectivity map at the top hierarchy level
    with radius 0; the result is a set of colors (\<^verbatim>\<open>std::unordered_set\<close>), listed in
    the order the loop of line 623 meets them;
  \<^item> \<open>best_path\<close>: \<^verbatim>\<open>GetBestPath\<close> after the given history, \<open>None\<close> when it throws
    \<^verbatim>\<open>std::runtime_error\<close>;
  \<^item> \<open>unreachable\<close>: the flag of the directed edge the reader finds for an identifier;
  \<^item> \<open>search_ms\<close>, \<open>total_ms\<close>: the milliseconds the clock measures for the search issued
    after a history, and for the whole run;
  \<^item> \<open>distance\<close>: \<^verbatim>\<open>PointLL::Distance\<close>, a \<^verbatim>\<open>float\<close>;
  \<^item> \<open>kKmPerMeter\<close>, \<open>kMilePerKm\<close>: the \<^verbatim>\<open>float\<close> constants of the midgard library;
  \<^item> \<open>float_add\<close>, \<open>float_mul\<close>: addition and multiplication of \<^verbatim>\<open>float\<close>, which
    round their result.
\<close>

record 'c env =
  create :: "string \<Rightarrow> ptree \<Rightarrow> 'c"
  travelmode :: "'c \<Rightarrow> travel_mode"
  AllowMultiPass :: "'c \<Rightarrow> bool"
  search_location :: "'c \<Rightarrow> location \<Rightarrow> path_location option"
  get_colors :: "path_location \<Rightarrow> nat list"
  best_path :: "event list \<Rightarrow> algorithm \<Rightarrow> path_location \<Rightarrow> path_location \<Rightarrow>
                (travel_mode \<Rightarrow> 'c option) \<Rightarrow> travel_mode \<Rightarrow> path_info list option"
  trip_path_build :: "path_info list \<Rightarrow> path_location \<Rightarrow> path_location \<Rightarrow> trip_path"
  directions_build :: "units \<Rightarrow> trip_path \<Rightarrow> trip_directions \<times> trip_path"
  unreachable :: "graph_id \<Rightarrow> bool"
  distance :: "location \<Rightarrow> location \<Rightarrow> real"
  search_ms :: "event list \<Rightarrow> u32"
  total_ms :: "event list \<Rightarrow> u32"
  kKmPerMeter :: real
  kMilePerKm :: real
  float_add :: "real \<Rightarrow> real \<Rightarrow> real"
  float_mul :: "real \<Rightarrow> real \<Rightarrow> real"

subsection \<open>PathTest (lines 79-150)\<close>

text \<open>
  The state a call works on: the history of the path algorithm and cost objects, the
  statistics object, and the averages that the multi-run block logs.
\<close>

record run_state =
  trace :: "event list"
  data :: path_statistics
  averages :: "u32 list"

text \<open>
  How a call ends: it returns, a \<^verbatim>\<open>std::runtime_error\<close> leaves it, or its behaviour is
  undefined (a null cost pointer is dereferenced, or an integer is divided by zero).
\<close>

datatype 'a outcome = Returned 'a | Threw | Undefined

definition call_GetBestPath ::
  "'c env \<Rightarrow> algorithm \<Rightarrow> path_location \<Rightarrow> path_location \<Rightarrow> (travel_mode \<Rightarrow> 'c option) \<Rightarrow>
   travel_mode \<Rightarrow> run_state \<Rightarrow> path_info list option \<times> run_state" where
  "call_GetBestPath env pathalgorithm orig dest mode_costing mode st =
     (best_path env (trace st) pathalgorithm orig dest mode_costing mode,
      st\<lparr>trace := trace st @ [GetBestPath pathalgorithm orig dest]\<rparr>)"

definition call_Clear :: "algorithm \<Rightarrow> run_state \<Rightarrow> run_state" where
  "call_Clear pathalgorithm st = st\<lparr>trace := trace st @ [Clear pathalgorithm]\<rparr>"

definition call_cost :: "event \<Rightarrow> run_state \<Rightarrow> run_state" where
  "call_cost e st = st\<lparr>trace := trace st @ [e]\<rparr>"

definition count_pass :: "run_state \<Rightarrow> run_state" where
  "count_pass st = st\<lparr>data := incPasses (data st)\<rparr>"

text \<open>
  Lines 91-101. \<^verbatim>\<open>relax_factor\<close> is computed and not used: the call passes
  \<^verbatim>\<open>using_astar\<close>, converted to \<^verbatim>\<open>float\<close>, in its place.
\<close>

definition second_pass ::
  "'c env \<Rightarrow> path_location \<Rightarrow> path_location \<Rightarrow> algorithm \<Rightarrow> (travel_mode \<Rightarrow> 'c option) \<Rightarrow>
   travel_mode \<Rightarrow> bool \<Rightarrow> path_info list \<Rightarrow> run_state \<Rightarrow> path_info list outcome \<times> run_state" where
  "second_pass env orig dest pathalgorithm mode_costing mode using_astar pathedges st =
     (if pathedges = [] then
        (case mode_costing mode of
           None \<Rightarrow> (Undefined, st)
         | Some cost \<Rightarrow>
             if AllowMultiPass env cost then
               (let st1 = call_Clear pathalgorithm st;
                    relax_factor = (if using_astar then 16 else 8 :: real);
                    expansion_within_factor = (if using_astar then 4 else 2 :: real);
                    st2 = call_cost (RelaxHierarchyLimits (if using_astar then 1 else 0)
                                       expansion_within_factor) st1
                in case call_GetBestPath env pathalgorithm orig dest mode_costing mode st2 of
                     (None, st3) \<Rightarrow> (Threw, st3)
                   | (Some pathedges2, st3) \<Rightarrow> (Returned pathedges2, count_pass st3))
             else (Returned pathedges, st))
      else (Returned pathedges, st))"

text \<open>
  Lines 102-116. An empty result stands for the two \<^verbatim>\<open>return TripPath()\<close> statements.
\<close>

definition third_pass ::
  "'c env \<Rightarrow> path_location \<Rightarrow> path_location \<Rightarrow> algorithm \<Rightarrow> (travel_mode \<Rightarrow> 'c option) \<Rightarrow>
   travel_mode \<Rightarrow> bool \<Rightarrow> path_info list \<Rightarrow> run_state \<Rightarrow> path_info list outcome \<times> run_state" where
  "third_pass env orig dest pathalgorithm mode_costing mode using_astar pathedges st =
     (if pathedges = [] then
        (if \<not> using_astar then (Returned [], st)
         else
           (case mode_costing mode of
              None \<Rightarrow> (Undefined, st)
            | Some cost \<Rightarrow>
                (let st1 = call_cost DisableHighwayTransitions st;
                     st2 = call_Clear pathalgorithm st1
                 in case call_GetBestPath env pathalgorithm orig dest mode_costing mode st2 of
                      (None, st3) \<Rightarrow> (Threw, st3)
                    | (Some pathedges3, st3) \<Rightarrow> (Returned pathedges3, count_pass st3))))
      else (Returned pathedges, st))"

text \<open>Lines 88-116: the passes of one leg.\<close>

definition search_passes ::
  "'c env \<Rightarrow> path_location \<Rightarrow> path_location \<Rightarrow> algorithm \<Rightarrow> (travel_mode \<Rightarrow> 'c option) \<Rightarrow>
   travel_mode \<Rightarrow> bool \<Rightarrow> run_state \<Rightarrow> path_info list outcome \<times> run_state" where
  "search_passes env orig dest pathalgorithm mode_costing mode using_astar st =
     (case call_GetBestPath env pathalgorithm orig dest mode_costing mode st of
        (None, st1) \<Rightarrow> (Threw, st1)
      | (Some pathedges, st1) \<Rightarrow>
          (case second_pass env orig dest pathalgorithm mode_costing mode using_astar
                  pathedges (count_pass st1) of
             (Returned pathedges2, st2) \<Rightarrow>
               third_pass env orig dest pathalgorithm mode_costing mode using_astar pathedges2 st2
           | (Threw, st2) \<Rightarrow> (Threw, st2)
           | (Undefined, st2) \<Rightarrow> (Undefined, st2)))"

text \<open>The loop of lines 139-145; it runs \<open>k\<close> more times and adds up the measured times.\<close>

fun rerun_loop ::
  "'c env \<Rightarrow> path_location \<Rightarrow> path_location \<Rightarrow> algorithm \<Rightarrow> (travel_mode \<Rightarrow> 'c option) \<Rightarrow>
   travel_mode \<Rightarrow> nat \<Rightarrow> u32 \<Rightarrow> run_state \<Rightarrow> u32 outcome \<times> run_state" where
  "rerun_loop env orig dest pathalgorithm mode_costing mode 0 totalms st = (Returned totalms, st)"
| "rerun_loop env orig dest pathalgorithm mode_costing mode (Suc k) totalms st =
     (case call_GetBestPath env pathalgorithm orig dest mode_costing mode st of
        (None, st1) \<Rightarrow> (Threw, st1)
      | (Some pathedges, st1) \<Rightarrow>
          rerun_loop env orig dest pathalgorithm mode_costing mode k
            (totalms + search_ms env (trace st)) (call_Clear pathalgorithm st1))"

text \<open>Lines 136-148.\<close>

definition multi_run_block ::
  "'c env \<Rightarrow> path_location \<Rightarrow> path_location \<Rightarrow> algorithm \<Rightarrow> (travel_mode \<Rightarrow> 'c option) \<Rightarrow>
   travel_mode \<Rightarrow> u32 \<Rightarrow> trip_path \<Rightarrow> run_state \<Rightarrow> trip_path outcome \<times> run_state" where
  "multi_run_block env orig dest pathalgorithm mode_costing mode iterations trip_path st =
     (case rerun_loop env orig dest pathalgorithm mode_costing mode (unat iterations) 0 st of
        (Returned totalms, st1) \<Rightarrow>
          if iterations = 0 then (Undefined, st1)
          else (Returned trip_path, st1\<lparr>averages := averages st1 @ [totalms div iterations]\<rparr>)
      | (Threw, st1) \<Rightarrow> (Threw, st1)
      | (Undefined, st1) \<Rightarrow> (Undefined, st1))"

definition PathTest ::
  "'c env \<Rightarrow> path_location \<Rightarrow> path_location \<Rightarrow> algorithm \<Rightarrow> (travel_mode \<Rightarrow> 'c option) \<Rightarrow>
   travel_mode \<Rightarrow> bool \<Rightarrow> u32 \<Rightarrow> bool \<Rightarrow> run_state \<Rightarrow> trip_path outcome \<times> run_state" where
  "PathTest env orig dest pathalgorithm mode_costing mode multi_run iterations using_astar st =
     (case search_passes env orig dest pathalgorithm mode_costing mode using_astar st of
        (Returned pathedges, st1) \<Rightarrow>
          if pathedges = [] then (Returned \<lparr>node = []\<rparr>, st1)
          else
            (let trip_path = trip_path_build env pathedges orig dest;
                 st2 = call_Clear pathalgorithm st1
             in if multi_run
                then multi_run_block env orig dest pathalgorithm mode_costing mode iterations
                       trip_path st2
                else (Returned trip_path, st2))
      | (Threw, st1) \<Rightarrow> (Threw, st1)
      | (Undefined, st1) \<Rightarrow> (Undefined, st1))"

subsection \<open>DirectionsTest (lines 250-350)\<close>

text \<open>
  The narrative lines are not modelled. The builder takes the trip path by reference, so
  it is returned as well. \<^verbatim>\<open>maneuver_size()\<close> is converted to \<^verbatim>\<open>uint32_t\<close>.
\<close>

definition DirectionsTest ::
  "'c env \<Rightarrow> units \<Rightarrow> trip_path \<Rightarrow> path_statistics \<Rightarrow>
   trip_directions \<times> trip_path \<times> path_statistics" where
  "DirectionsTest env directions_options trip_path d =
     (case directions_build env directions_options trip_path of
        (trip_directions, trip_path') \<Rightarrow>
          (trip_directions, trip_path',
           setManuevers (of_nat (length (maneuver trip_directions)))
             (setTripDist (summary_length trip_directions)
                (setTripTime (summary_time trip_directions) d))))"

subsection \<open>main: costing, locations, connectivity (lines 550-645)\<close>

text \<open>\<^verbatim>\<open>std::tolower\<close> in the default locale.\<close>

definition tolower :: "char \<Rightarrow> char" where
  "tolower c =
     (let n = (of_char c :: nat) in if 65 \<le> n \<and> n \<le> 90 then char_of (n + 32) else c)"

text \<open>
  Lines 585-600. The array \<^verbatim>\<open>mode_costing\<close> is indexed by the travel mode; an entry
  that is never assigned holds a null pointer.
\<close>

definition resolve_costing ::
  "'c env \<Rightarrow> ptree \<Rightarrow> ptree \<Rightarrow> string \<Rightarrow> error + (travel_mode \<times> (travel_mode \<Rightarrow> 'c option))" where
  "resolve_costing env pt json_ptree routetype =
     (if routetype = ''multimodal'' then
        (case get_costing (create env) pt json_ptree ''auto'' of
           Inl e \<Rightarrow> Inl e
         | Inr c0 \<Rightarrow>
        (case get_costing (create env) pt json_ptree ''pedestrian'' of
           Inl e \<Rightarrow> Inl e
         | Inr c1 \<Rightarrow>
        (case get_costing (create env) pt json_ptree ''bicycle'' of
           Inl e \<Rightarrow> Inl e
         | Inr c2 \<Rightarrow>
        (case get_costing (create env) pt json_ptree ''transit'' of
           Inl e \<Rightarrow> Inl e
         | Inr c3 \<Rightarrow>
             Inr (kPedestrian,
                  [kDrive \<mapsto> c0, kPedestrian \<mapsto> c1, kBicycle \<mapsto> c2, kPublicTransit \<mapsto> c3])))))
      else
        (case get_costing (create env) pt json_ptree routetype of
           Inl e \<Rightarrow> Inl e
         | Inr cost \<Rightarrow> Inr (travelmode env cost, [travelmode env cost \<mapsto> cost])))"

text \<open>Lines 607-616: the loop stops at the first location whose search throws.\<close>

fun find_locations :: "(location \<Rightarrow> path_location option) \<Rightarrow> location list \<Rightarrow> path_location list option" where
  "find_locations srch [] = Some []"
| "find_locations srch (loc # locs) =
     (case srch loc of
        None \<Rightarrow> None
      | Some pl \<Rightarrow> (case find_locations srch locs of None \<Rightarrow> None | Some pls \<Rightarrow> Some (pl # pls)))"

text \<open>
  Lines 622-629. \<^verbatim>\<open>color_counts\<close> is an unordered map; it is kept as an association
  list with one entry for each key.
\<close>

definition count_colors :: "nat list \<Rightarrow> (nat \<times> nat) list \<Rightarrow> (nat \<times> nat) list" where
  "count_colors colors color_counts =
     fold (\<lambda>color cc. case map_of cc color of
                         None \<Rightarrow> AList.update color 1 cc
                       | Some k \<Rightarrow> AList.update color (k + 1) cc)
          colors color_counts"

text \<open>
  Lines 621-638, the value of \<^verbatim>\<open>connected\<close>. The colors are asked for
  \<^verbatim>\<open>path_location.back()\<close> only, after the loop over the locations has ended.
\<close>

definition connected_flag :: "'c env \<Rightarrow> path_location list \<Rightarrow> nat \<Rightarrow> bool" where
  "connected_flag env path_location n_locations =
     list_ex (\<lambda>c. snd c = n_locations)
       (count_colors (get_colors env (last path_location)) [])"

subsection \<open>main: the legs and the final record (lines 651-755)\<close>

text \<open>Lines 700-726: the two loops over the candidate edges of a waypoint.\<close>

definition any_unreachable :: "'c env \<Rightarrow> path_location \<Rightarrow> bool" where
  "any_unreachable env pl =
     fold (\<lambda>edge u. if unreachable env (edge_id edge) then True else u) (edges pl) False"

text \<open>Lines 728-737.\<close>

definition failure_kind :: "bool \<Rightarrow> bool \<Rightarrow> string" where
  "failure_kind unreachable_origin unreachable_dest =
     (if unreachable_origin \<and> unreachable_dest then ''fail_unreachable_locations''
      else if unreachable_origin then ''fail_unreachable_origin''
      else if unreachable_dest then ''fail_unreachable_dest''
      else ''fail_no_route'')"

text \<open>Lines 684-738, for the trip path that \<^verbatim>\<open>main\<close> holds after the call of PathTest.\<close>

definition record_leg ::
  "'c env \<Rightarrow> units \<Rightarrow> path_location \<Rightarrow> path_location \<Rightarrow> trip_path \<Rightarrow> run_state \<Rightarrow>
   trip_path \<times> run_state" where
  "record_leg env directions_options pl1 pl2 trip_path st =
     (if node trip_path \<noteq> [] then
        (case DirectionsTest env directions_options trip_path (data st) of
           (trip_directions, trip_path', d) \<Rightarrow> (trip_path', st\<lparr>data := setSuccess ''success'' d\<rparr>))
      else
        (trip_path,
         st\<lparr>data := setSuccess
                        (failure_kind (any_unreachable env pl1) (any_unreachable env pl2))
                        (data st)\<rparr>))"

text \<open>
  One iteration of the loop of lines 655-739. \<^verbatim>\<open>trip_path\<close> is declared before the
  loop: when PathTest throws, the handler only logs and \<^verbatim>\<open>trip_path\<close> keeps the value
  of the iteration before. \<open>None\<close>: undefined behaviour inside PathTest.
\<close>

definition run_leg ::
  "'c env \<Rightarrow> string \<Rightarrow> (travel_mode \<Rightarrow> 'c option) \<Rightarrow> travel_mode \<Rightarrow> bool \<Rightarrow> u32 \<Rightarrow> units \<Rightarrow>
   path_location \<Rightarrow> path_location \<Rightarrow> trip_path \<times> run_state \<Rightarrow> (trip_path \<times> run_state) option" where
  "run_leg env routetype mode_costing mode multi_run iterations directions_options pl1 pl2 s =
     (let pathalgorithm = choose_algorithm routetype pl1 pl2;
          using_astar = (pathalgorithm = AStar)
      in case PathTest env pl1 pl2 pathalgorithm mode_costing mode multi_run iterations
                using_astar (snd s) of
           (Returned trip_path, st1) \<Rightarrow> Some (record_leg env directions_options pl1 pl2 trip_path st1)
         | (Threw, st1) \<Rightarrow> Some (record_leg env directions_options pl1 pl2 (fst s) st1)
         | (Undefined, st1) \<Rightarrow> None)"

fun run_legs ::
  "'c env \<Rightarrow> string \<Rightarrow> (travel_mode \<Rightarrow> 'c option) \<Rightarrow> travel_mode \<Rightarrow> bool \<Rightarrow> u32 \<Rightarrow> units \<Rightarrow>
   path_location list \<Rightarrow> trip_path \<times> run_state \<Rightarrow> (trip_path \<times> run_state) option" where
  "run_legs env routetype mode_costing mode multi_run iterations directions_options
     (pl1 # pl2 # pls) s =
     (case run_leg env routetype mode_costing mode multi_run iterations directions_options
             pl1 pl2 s of
        None \<Rightarrow> None
      | Some s' \<Rightarrow>
          run_legs env routetype mode_costing mode multi_run iterations directions_options
            (pl2 # pls) s')"
| "run_legs env routetype mode_costing mode multi_run iterations directions_options pls s = Some s"

text \<open>
  How the process ends: one of the two exit codes, \<^verbatim>\<open>std::terminate\<close> after the
  exception of get\_costing that nothing catches, or undefined behaviour.
\<close>

datatype exit_status = EXIT_SUCCESS | EXIT_FAILURE | Terminated | UndefinedBehaviour

record main_result =
  exit_code :: exit_status
  statistics :: "field list list"
  history :: "event list"

text \<open>
  Lines 556-559: \<^verbatim>\<open>d1\<close>, the sum over the legs of the straight-line distance between
  their ends, in kilometres. The sum starts at \<^verbatim>\<open>0.0f\<close>; every product and every sum is
  a \<^verbatim>\<open>float\<close> operation.
\<close>

definition crow_flies :: "'c env \<Rightarrow> location list \<Rightarrow> real" where
  "crow_flies env locations =
     fold (\<lambda>i d1. float_add env d1
                     (float_mul env (distance env (locations ! i) (locations ! (i + 1)))
                        (kKmPerMeter env)))
          [0..<length locations - 1] 0"

text \<open>Lines 742-745: the value handed to \<^verbatim>\<open>setArcDist\<close>.\<close>

definition arc_distance :: "'c env \<Rightarrow> units \<Rightarrow> real \<Rightarrow> real" where
  "arc_distance env directions_options d1 =
     (if directions_options = kMiles then float_mul env d1 (kMilePerKm env) else d1)"

text \<open>
  \<^verbatim>\<open>main\<close> from line 550 on, for the locations, route type, request tree, flags and
  directions options that the command line gave. Parsing leaves at least two locations;
  with none, \<^verbatim>\<open>locations[0]\<close> is out of range. \<open>statistics\<close> holds the lines logged
  under \<^verbatim>\<open>[STATISTICS]\<close>.
\<close>

definition main ::
  "'c env \<Rightarrow> ptree \<Rightarrow> ptree \<Rightarrow> location list \<Rightarrow> string \<Rightarrow> bool \<Rightarrow> bool \<Rightarrow> u32 \<Rightarrow> units \<Rightarrow>
   main_result" where
  "main env pt json_ptree locations routetype0 connectivity multi_run iterations
     directions_options =
     (if locations = [] then \<lparr>exit_code = UndefinedBehaviour, statistics = [], history = []\<rparr>
      else
        (let n = length locations - 1;
             data0 = PathStatistics (lat (locations ! 0), lng (locations ! 0))
                       (lat (locations ! n), lng (locations ! n));
             d1 = crow_flies env locations;
             routetype = map tolower routetype0
         in case resolve_costing env pt json_ptree routetype of
              Inl e \<Rightarrow> \<lparr>exit_code = Terminated, statistics = [], history = []\<rparr>
            | Inr (mode, mode_costing) \<Rightarrow>
                (case mode_costing mode of
                   None \<Rightarrow> \<lparr>exit_code = UndefinedBehaviour, statistics = [], history = []\<rparr>
                 | Some cost \<Rightarrow>
                     (case find_locations (search_location env cost) locations of
                        None \<Rightarrow>
                          \<lparr>exit_code = EXIT_FAILURE,
                           statistics = [log_stats (setSuccess ''fail_invalid_origin'' data0)],
                           history = []\<rparr>
                      | Some path_location \<Rightarrow>
                          if connectivity \<and> \<not> connected_flag env path_location (length locations)
                          then
                            \<lparr>exit_code = EXIT_FAILURE,
                             statistics = [log_stats (setSuccess ''fail_no_connectivity'' data0)],
                             history = []\<rparr>
                          else
                            (case run_legs env routetype mode_costing mode multi_run iterations
                                    directions_options path_location
                                    (\<lparr>node = []\<rparr>, \<lparr>trace = [], data = data0, averages = []\<rparr>) of
                               None \<Rightarrow>
                                 \<lparr>exit_code = UndefinedBehaviour, statistics = [], history = []\<rparr>
                             | Some (trip_path, st) \<Rightarrow>
                                 (let data1 = addRuntime (total_ms env (trace st))
                                                (setArcDist (arc_distance env directions_options d1)
                                                   (data st))
                                  in \<lparr>exit_code = EXIT_SUCCESS,
                                      statistics = [log_stats data1],
                                      history = trace st\<rparr>))))))"

subsection \<open>A small world to run the program in\<close>

text \<open>
  Three places A, B and C are known to the location search; A is correlated to edge 5,
  B to edges 9 and 5, C to edge 7, and edge 7 is flagged unreachable. Every search that
  ends at B finds the one-edge path over edge 5, every other search finds nothing. A and
  B lie in the connectivity color 1, C in the color 2. A cost object is the pair of its
  costing name and its options; only \<open>auto\<close> allows a second pass. Two places are
  3072 m apart and the unit constants are powers of two or small multiples of them, so
  that every \<^verbatim>\<open>float\<close> product and sum of the small world is exact.
\<close>

type_synonym demo_cost = "string \<times> ptree"

definition loc_a :: location where "loc_a = \<lparr>lat = 40, lng = -73\<rparr>"
definition loc_b :: location where "loc_b = \<lparr>lat = 41, lng = -74\<rparr>"
definition loc_c :: location where "loc_c = \<lparr>lat = 42, lng = -75\<rparr>"

definition wp_a :: path_location where
  "wp_a = \<lparr>lat = 40, lng = -73, edges = [\<lparr>edge_id = 5\<rparr>]\<rparr>"

definition wp_b :: path_location where
  "wp_b = \<lparr>lat = 41, lng = -74, edges = [\<lparr>edge_id = 9\<rparr>, \<lparr>edge_id = 5\<rparr>]\<rparr>"

definition wp_c :: path_location where
  "wp_c = \<lparr>lat = 42, lng = -75, edges = [\<lparr>edge_id = 7\<rparr>]\<rparr>"

definition demo_search :: "demo_cost \<Rightarrow> location \<Rightarrow> path_location option" where
  "demo_search cost loc =
     (if loc = loc_a then Some wp_a else if loc = loc_b then Some wp_b
      else if loc = loc_c then Some wp_c else None)"

definition demo_best_path ::
  "event list \<Rightarrow> algorithm \<Rightarrow> path_location \<Rightarrow> path_location \<Rightarrow>
   (travel_mode \<Rightarrow> demo_cost option) \<Rightarrow> travel_mode \<Rightarrow> path_info list option" where
  "demo_best_path h pathalgorithm orig dest mode_costing mode =
     (if dest = wp_b then Some [\<lparr>pi_edgeid = 5, elapsed_time = 100\<rparr>] else Some [])"

definition demo_travelmode :: "demo_cost \<Rightarrow> travel_mode" where
  "demo_travelmode cost =
     (if fst cost = ''pedestrian'' then kPedestrian
      else if fst cost = ''bicycle'' then kBicycle
      else if fst cost = ''transit'' then kPublicTransit else kDrive)"

definition demo_directions :: "units \<Rightarrow> trip_path \<Rightarrow> trip_directions \<times> trip_path" where
  "demo_directions u tp =
     (\<lparr>summary_time = 100, summary_length = 2, maneuver = [''Start'', ''Turn'', ''Arrive'']\<rparr>, tp)"

definition demo_env :: "demo_cost env" where
  "demo_env =
     \<lparr>create = Pair,
      travelmode = demo_travelmode,
      AllowMultiPass = (\<lambda>cost. fst cost = ''auto''),
      search_location = demo_search,
      get_colors = (\<lambda>pl. if pl = wp_c then [2] else [1]),
      best_path = demo_best_path,
      trip_path_build = (\<lambda>pathedges orig dest. \<lparr>node = map pi_edgeid pathedges\<rparr>),
      directions_build = demo_directions,
      unreachable = (\<lambda>i. i = 7),
      distance = (\<lambda>l1 l2. 3072),
      search_ms = (\<lambda>h. 4),
      total_ms = (\<lambda>h. 50),
      kKmPerMeter = 1 / 1024,
      kMilePerKm = 5 / 8,
      float_add = (+),
      float_mul = (*)\<rparr>"

definition demo_config :: ptree where
  "demo_config =
     PTree [] [(''mjolnir'', PTree [] []),
               (''costing_options'',
                PTree [] [(''auto'', PTree [] [(''maneuver_penalty'', PTree ''5'' []),
                                               (''use_tolls'', PTree ''1'' [])]),
                          (''bicycle'', PTree [] [(''use_roads'', PTree ''1'' [])])])]"

definition demo_request :: ptree where
  "demo_request =
     PTree [] [(''costing'', PTree ''auto'' []),
               (''costing_options'',
                PTree [] [(''auto'', PTree [] [(''use_tolls'', PTree ''0'' []),
                                               (''top_speed'', PTree ''90'' [])])])]"

definition demo_auto :: demo_cost where
  "demo_auto = (''auto'', PTree [] [(''maneuver_penalty'', PTree ''5'' []),
                                    (''use_tolls'', PTree ''0'' []),
                                    (''top_speed'', PTree ''90'' [])])"

definition demo_bicycle :: demo_cost where
  "demo_bicycle = (''bicycle'', PTree [] [(''use_roads'', PTree ''1'' [])])"

definition st_init :: run_state where
  "st_init = \<lparr>trace = [], data = PathStatistics (40, -73) (41, -74), averages = []\<rparr>"







subsection \<open>Reading a history\<close>

text \<open>
  The events that a call appended, the searches among them, and the order that the path
  algorithm object has to see: \<open>clears_ok a b evs\<close> holds when every event of \<open>evs\<close>
  on a path algorithm is on \<open>a\<close>, and every search but possibly the first comes after a
  \<^verbatim>\<open>Clear\<close> with no other call of the path algorithm in between (calls on the cost
  object may stand in between). The flag \<open>b\<close> says whether a search may come next.
\<close>

definition is_search :: "event \<Rightarrow> bool" where
  "is_search e = (case e of GetBestPath a orig dest \<Rightarrow> True | _ \<Rightarrow> False)"

definition leg_events :: "run_state \<Rightarrow> run_state \<Rightarrow> event list" where
  "leg_events st st' = drop (length (trace st)) (trace st')"

definition attempts :: "run_state \<Rightarrow> run_state \<Rightarrow> nat" where
  "attempts st st' = length (filter is_search (leg_events st st'))"

fun clears_ok :: "algorithm \<Rightarrow> bool \<Rightarrow> event list \<Rightarrow> bool" where
  "clears_ok a b [] = True"
| "clears_ok a b (GetBestPath a' orig dest # es) = (a' = a \<and> b \<and> clears_ok a False es)"
| "clears_ok a b (Clear a' # es) = (a' = a \<and> clears_ok a True es)"
| "clears_ok a b (e # es) = clears_ok a b es"

text \<open>The later state has the earlier history as a prefix.\<close>

definition steps :: "run_state \<Rightarrow> run_state \<Rightarrow> bool" where
  "steps st st' = (trace st' = trace st @ leg_events st st')"

text \<open>The \<^verbatim>\<open>mode_costing\<close> arrays of the small world.\<close>

definition mc_auto :: "travel_mode \<Rightarrow> demo_cost option" where
  "mc_auto = [kDrive \<mapsto> demo_auto]"

definition mc_bicycle :: "travel_mode \<Rightarrow> demo_cost option" where
  "mc_bicycle = [kBicycle \<mapsto> demo_bicycle]"

text \<open>States of the small world: after the one pass from A to B, and after two re-runs.\<close>

definition found_path :: "path_info list" where
  "found_path = [\<lparr>pi_edgeid = 5, elapsed_time = 100\<rparr>]"

definition st_found :: run_state where
  "st_found = \<lparr>trace = [GetBestPath AStar wp_a wp_b],
                data = incPasses (PathStatistics (40, -73) (41, -74)), averages = []\<rparr>"

definition st_rerun :: run_state where
  "st_rerun = \<lparr>trace = [GetBestPath AStar wp_a wp_b, Clear AStar,
                         GetBestPath AStar wp_a wp_b, Clear AStar,
                         GetBestPath AStar wp_a wp_b, Clear AStar],
                data = incPasses (PathStatistics (40, -73) (41, -74)), averages = []\<rparr>"

text \<open>The state after the one search from B to C.\<close>

definition st_bc :: run_state where
  "st_bc = \<lparr>trace = [GetBestPath Bidirectional wp_b wp_c],
             data = incPasses (PathStatistics (40, -73) (41, -74)), averages = []\<rparr>"

text \<open>
  The membership count as the specification words it: the number of waypoints of the
  request whose own candidates belong to the color.
\<close>

definition waypoints_in_color :: "'c env \<Rightarrow> path_location list \<Rightarrow> nat \<Rightarrow> nat" where
  "waypoints_in_color env pls color = length (filter (\<lambda>pl. color \<in> set (get_colors env pl)) pls)"


text \<open>Two statistics objects that differ in the pass counter at most.\<close>

definition but_passes :: "path_statistics \<Rightarrow> path_statistics \<Rightarrow> bool" where
  "but_passes d d' = (d'\<lparr>passes := passes d\<rparr> = d)"


text \<open>The statistics object that main starts with.\<close>

definition data0 :: "location list \<Rightarrow> path_statistics" where
  "data0 locations =
     PathStatistics (lat (hd locations), lng (hd locations))
       (lat (last locations), lng (last locations))"




text \<open>
  Two variants of the small world. In the first the clock of the whole run counts 4 ms
  for every search of the history. In the second a search throws when the same path
  algorithm object has been cleared before.
\<close>

definition clock_env :: "demo_cost env" where
  "clock_env = demo_env\<lparr>total_ms := (\<lambda>h. 4 * of_nat (length (filter is_search h)))\<rparr>"

definition throwing_env :: "demo_cost env" where
  "throwing_env =
     demo_env\<lparr>best_path := (\<lambda>h pathalgorithm orig dest mode_costing mode.
                               if Clear pathalgorithm \<in> set h then None
                               else demo_best_path h pathalgorithm orig dest mode_costing mode)\<rparr>"



section \<open>Properties\<close>

subsection \<open>Algorithm selection\<close>

lemma inner_scan_AStar: "fold (\<lambda>edge2 a2. if P edge2 then AStar else a2) es AStar = AStar"
  by (induction es) simp_all

lemma inner_scan_hit:
  "list_ex P es \<Longrightarrow> fold (\<lambda>edge2 a2. if P edge2 then AStar else a2) es a = AStar"
  by (induction es arbitrary: a) (auto simp: inner_scan_AStar)

lemma scan_pairs_AStar: "scan_pairs es1 es2 AStar = AStar"
  unfolding scan_pairs_def by (induction es1) (simp_all add: inner_scan_AStar)

lemma scan_pairs_Cons:
  "scan_pairs (e # es1) es2 a =
     scan_pairs es1 es2 (fold (\<lambda>edge2 a2. if edge_id e = edge_id edge2 then AStar else a2) es2 a)"
  by (simp add: scan_pairs_def)

lemma scan_pairs_hit:
  "list_ex (\<lambda>e1. list_ex (\<lambda>e2. edge_id e1 = edge_id e2) es2) es1 \<Longrightarrow> scan_pairs es1 es2 a = AStar"
proof (induction es1 arbitrary: a)
  case Nil
  then show ?case by simp
next
  case (Cons e es1)
  show ?case
  proof (cases "list_ex (\<lambda>e2. edge_id e = edge_id e2) es2")
    case True
    then show ?thesis
      by (simp add: scan_pairs_Cons inner_scan_hit scan_pairs_AStar)
  next
    case False
    with Cons.prems have "list_ex (\<lambda>e1. list_ex (\<lambda>e2. edge_id e1 = edge_id e2) es2) es1"
      by simp
    then show ?thesis
      by (simp add: scan_pairs_Cons Cons.IH)
  qed
qed

lemma inner_scan_miss:
  "\<not> list_ex P es \<Longrightarrow> fold (\<lambda>edge2 a2. if P edge2 then AStar else a2) es a = a"
  by (induction es arbitrary: a) auto

lemma scan_pairs_miss:
  "\<not> list_ex (\<lambda>e1. list_ex (\<lambda>e2. edge_id e1 = edge_id e2) es2) es1 \<Longrightarrow> scan_pairs es1 es2 a = a"
  by (induction es1 arbitrary: a) (simp_all add: scan_pairs_Cons inner_scan_miss, simp add: scan_pairs_def)

text \<open>
  C1 (as the code has it). The selection for a leg, for every route type and every pair of
  candidate lists: \<open>multimodal\<close> selects the multimodal algorithm and \<open>pedestrian\<close>
  selects the bidirectional one, whatever the candidates are; for every other route type
  the selection is the direct algorithm when the two candidate lists share an edge
  identifier, and the bidirectional algorithm when they share none.
\<close>

theorem choose_algorithm_shared_edge:
  "choose_algorithm routetype pl1 pl2 =
     (if routetype = ''multimodal'' then MultiModal
      else if routetype = ''pedestrian'' then Bidirectional
      else if shares_edge pl1 pl2 then AStar
      else Bidirectional)"
  by (simp add: choose_algorithm_def shares_edge_def scan_pairs_hit scan_pairs_miss)

theorem choose_algorithm_shared_edge_witness:
  "shares_edge wp_a wp_b \<and> \<not> shares_edge wp_a wp_c \<and>
   choose_algorithm ''auto'' wp_a wp_b = AStar \<and>
   choose_algorithm ''auto'' wp_a wp_c = Bidirectional \<and>
   choose_algorithm ''pedestrian'' wp_a wp_c = Bidirectional \<and>
   choose_algorithm ''multimodal'' wp_a wp_c = MultiModal"
proof -
  have h: "shares_edge wp_a wp_b" "\<not> shares_edge wp_a wp_c"
    by (simp_all add: shares_edge_def wp_a_def wp_b_def wp_c_def)
  from choose_algorithm_shared_edge [of "''auto''" wp_a wp_b]
       choose_algorithm_shared_edge [of "''auto''" wp_a wp_c]
       choose_algorithm_shared_edge [of "''pedestrian''" wp_a wp_c]
       choose_algorithm_shared_edge [of "''multimodal''" wp_a wp_c] h
  show ?thesis by simp
qed

text \<open>
  C1 as stated fails: the pedestrian route type gets the bidirectional algorithm although
  both waypoints are correlated to edge 5.
\<close>

theorem choose_algorithm_pedestrian_counterexample:
  "shares_edge wp_a wp_b \<and> choose_algorithm ''pedestrian'' wp_a wp_b \<noteq> AStar"
  by (simp add: shares_edge_def wp_a_def wp_b_def choose_algorithm_def)

subsection \<open>Costing options\<close>

























subsection \<open>The passes of PathTest\<close>

lemma is_search_simps [simp]:
  "is_search (GetBestPath a orig dest)" "\<not> is_search (Clear a)"
  "\<not> is_search (RelaxHierarchyLimits x y)" "\<not> is_search DisableHighwayTransitions"
  by (simp_all add: is_search_def)

lemma stepsI: "trace st' = trace st @ evs \<Longrightarrow> steps st st'"
  by (simp add: steps_def leg_events_def)

lemma leg_events_eq: "trace st' = trace st @ evs \<Longrightarrow> leg_events st st' = evs"
  by (simp add: leg_events_def)

lemma steps_trans:
  assumes "steps st st1" "steps st1 st2"
  shows "steps st st2" and "leg_events st st2 = leg_events st st1 @ leg_events st1 st2"
proof -
  from assms have "trace st2 = trace st @ (leg_events st st1 @ leg_events st1 st2)"
    by (simp add: steps_def)
  then show "steps st st2" and "leg_events st st2 = leg_events st st1 @ leg_events st1 st2"
    by (rule stepsI, rule leg_events_eq)
qed

lemma clears_ok_append:
  "clears_ok a b xs \<Longrightarrow> (\<And>b'. clears_ok a b' ys) \<Longrightarrow> clears_ok a b (xs @ ys)"
  by (induction a b xs rule: clears_ok.induct) simp_all

lemma second_pass_events:
  assumes "second_pass env orig dest alg mc mode ua pe st = (r, st')"
  shows "trace st' = trace st @ leg_events st st'"
    and "length (filter is_search (leg_events st st')) \<le> 1"
    and "clears_ok alg b (leg_events st st')"
    and "averages st' = averages st"
    and "r = Returned pe' \<Longrightarrow>
           passes (data st') = passes (data st) + of_nat (length (filter is_search (leg_events st st')))"
  using assms
  by (auto simp add: second_pass_def call_GetBestPath_def call_Clear_def call_cost_def count_pass_def
      incPasses_def leg_events_def is_search_def Let_def split: option.splits if_splits)

lemma third_pass_events:
  assumes "third_pass env orig dest alg mc mode ua pe st = (r, st')"
  shows "trace st' = trace st @ leg_events st st'"
    and "length (filter is_search (leg_events st st')) \<le> 1"
    and "clears_ok alg b (leg_events st st')"
    and "averages st' = averages st"
    and "r = Returned pe' \<Longrightarrow>
           passes (data st') = passes (data st) + of_nat (length (filter is_search (leg_events st st')))"
  using assms
  by (auto simp add: third_pass_def call_GetBestPath_def call_Clear_def call_cost_def count_pass_def
      incPasses_def leg_events_def is_search_def Let_def split: option.splits if_splits)

lemma first_search_events:
  assumes "call_GetBestPath env alg orig dest mc mode st = (r, st')"
  shows "trace st' = trace st @ [GetBestPath alg orig dest]"
    and "data st' = data st" and "averages st' = averages st"
    and "r = best_path env (trace st) alg orig dest mc mode"
  using assms by (auto simp: call_GetBestPath_def)

lemma count_pass_simps [simp]:
  "trace (count_pass st) = trace st" "averages (count_pass st) = averages st"
  "passes (data (count_pass st)) = passes (data st) + 1"
  by (simp_all add: count_pass_def incPasses_def)

lemma leg_events_count_pass [simp]: "leg_events (count_pass st) st' = leg_events st st'"
  by (simp add: leg_events_def)

lemma search_passes_events:
  assumes "search_passes env orig dest alg mc mode ua st = (r, st')"
  shows "trace st' = trace st @ leg_events st st'"
    and "1 \<le> attempts st st'" and "attempts st st' \<le> 3"
    and "clears_ok alg True (leg_events st st')"
    and "averages st' = averages st"
    and "r = Returned pe' \<Longrightarrow> passes (data st') = passes (data st) + of_nat (attempts st st')"
proof -
  obtain r1 st1 where c1: "call_GetBestPath env alg orig dest mc mode st = (r1, st1)"
    by (cases "call_GetBestPath env alg orig dest mc mode st")
  note f1 = first_search_events [OF c1]
  have e1: "leg_events st st1 = [GetBestPath alg orig dest]"
    using f1(1) by (rule leg_events_eq)
  have s1: "steps st st1" using f1(1) by (rule stepsI)
  have all: "trace st' = trace st @ leg_events st st'
      \<and> 1 \<le> attempts st st' \<and> attempts st st' \<le> 3
      \<and> clears_ok alg True (leg_events st st')
      \<and> averages st' = averages st
      \<and> (r = Returned pe' \<longrightarrow> passes (data st') = passes (data st) + of_nat (attempts st st'))"
  proof (cases r1)
    case None
    with assms c1 have "st' = st1" "r = Threw"
      by (simp_all add: search_passes_def)
    with f1 e1 show ?thesis
      by (simp add: attempts_def is_search_def)
  next
    case (Some pathedges)
    obtain r2 st2 where c2:
      "second_pass env orig dest alg mc mode ua pathedges (count_pass st1) = (r2, st2)"
      by (cases "second_pass env orig dest alg mc mode ua pathedges (count_pass st1)")
    note f2 = second_pass_events [OF c2]
    have s2: "steps st1 st2" using f2(1) by (simp add: steps_def)
    note t2 = steps_trans [OF s1 s2]
    show ?thesis
    proof (cases r2)
      case (Returned pathedges2)
      with assms c1 Some c2
      have c3: "third_pass env orig dest alg mc mode ua pathedges2 st2 = (r, st')"
        by (simp add: search_passes_def)
      note f3 = third_pass_events [OF c3]
      have s3: "steps st2 st'" using f3(1) by (simp add: steps_def)
      note t3 = steps_trans [OF t2(1) s3]
      have ev: "leg_events st st' = GetBestPath alg orig dest # leg_events st1 st2 @ leg_events st2 st'"
        using t3(2) t2(2) e1 by simp
      have p: "r = Returned pe' \<Longrightarrow> passes (data st') = passes (data st) + of_nat (attempts st st')"
        using f3(5) [of pe'] f2(5) [OF Returned] f1(2) f2(1)
        by (simp add: ev attempts_def is_search_def)
      from t3(1) f2(2,4) f3(2,4) f1(3) f2(3) [of False] f3(3) p show ?thesis
        by (simp add: steps_def ev attempts_def is_search_def clears_ok_append)
    next
      case Threw
      with assms c1 Some c2 have "st' = st2" "r = Threw"
        by (simp_all add: search_passes_def)
      with t2 e1 f2(2,4) f1(3) f2(3) [of False] show ?thesis
        by (simp add: steps_def attempts_def is_search_def)
    next
      case Undefined
      with assms c1 Some c2 have "st' = st2" "r = Undefined"
        by (simp_all add: search_passes_def)
      with t2 e1 f2(2,4) f1(3) f2(3) [of False] show ?thesis
        by (simp add: steps_def attempts_def is_search_def)
    qed
  qed
  then show "trace st' = trace st @ leg_events st st'"
    and "1 \<le> attempts st st'" and "attempts st st' \<le> 3"
    and "clears_ok alg True (leg_events st st')"
    and "averages st' = averages st"
    and "r = Returned pe' \<Longrightarrow> passes (data st') = passes (data st) + of_nat (attempts st st')"
    by simp_all
qed

lemma rerun_loop_events:
  assumes "rerun_loop env orig dest alg mc mode k totalms st = (r, st')"
  shows "trace st' = trace st @ leg_events st st' \<and> clears_ok alg True (leg_events st st')
         \<and> data st' = data st \<and> averages st' = averages st
         \<and> length (filter is_search (leg_events st st')) \<le> k"
  using assms
proof (induction k arbitrary: totalms st)
  case 0
  then show ?case by (simp add: leg_events_def)
next
  case (Suc k)
  obtain r1 st1 where c1: "call_GetBestPath env alg orig dest mc mode st = (r1, st1)"
    by (cases "call_GetBestPath env alg orig dest mc mode st")
  note f1 = first_search_events [OF c1]
  have e1: "leg_events st st1 = [GetBestPath alg orig dest]"
    using f1(1) by (rule leg_events_eq)
  show ?case
  proof (cases r1)
    case None
    with Suc.prems c1 have "st' = st1" by simp
    with f1 e1 show ?thesis by simp
  next
    case (Some pathedges)
    with Suc.prems c1
    have "rerun_loop env orig dest alg mc mode k (totalms + search_ms env (trace st))
            (call_Clear alg st1) = (r, st')"
      by simp
    from Suc.IH [OF this]
    have ih: "trace st' = trace (call_Clear alg st1) @ leg_events (call_Clear alg st1) st'"
      "clears_ok alg True (leg_events (call_Clear alg st1) st')"
      "data st' = data st" "averages st' = averages st"
      "length (filter is_search (leg_events (call_Clear alg st1) st')) \<le> k"
      using f1 by (simp_all add: call_Clear_def)
    have "trace st' = trace st @ (GetBestPath alg orig dest # Clear alg
                                    # leg_events (call_Clear alg st1) st')"
      using ih(1) f1(1) by (simp add: call_Clear_def)
    then have "leg_events st st' = GetBestPath alg orig dest # Clear alg
                                    # leg_events (call_Clear alg st1) st'"
      by (rule leg_events_eq)
    with ih f1(1) show ?thesis by (simp add: call_Clear_def)
  qed
qed

lemma multi_run_block_events:
  assumes "multi_run_block env orig dest alg mc mode iterations tp st = (r, st')"
  shows "trace st' = trace st @ leg_events st st'" and "clears_ok alg True (leg_events st st')"
    and "data st' = data st"
    and "length (filter is_search (leg_events st st')) \<le> unat iterations"
proof -
  obtain r1 st1 where c: "rerun_loop env orig dest alg mc mode (unat iterations) 0 st = (r1, st1)"
    by (cases "rerun_loop env orig dest alg mc mode (unat iterations) 0 st")
  note f = rerun_loop_events [OF c]
  from assms c have "trace st' = trace st1 \<and> data st' = data st1"
    by (cases r1) (auto simp: multi_run_block_def split: if_splits)
  with f show "trace st' = trace st @ leg_events st st'"
    and "clears_ok alg True (leg_events st st')" and "data st' = data st"
    and "length (filter is_search (leg_events st st')) \<le> unat iterations"
    by (simp_all add: leg_events_def)
qed

lemma PathTest_events:
  assumes sp: "search_passes env orig dest alg mc mode ua st = (r1, s1)"
      and pt: "PathTest env orig dest alg mc mode multi_run iterations ua st = (r, s2)"
  shows "trace s2 = trace s1 @ leg_events s1 s2"
    and "\<And>b. clears_ok alg b (leg_events s1 s2)"
    and "data s2 = data s1"
    and "attempts s1 s2 \<le> unat iterations"
    and "\<not> multi_run \<Longrightarrow> attempts s1 s2 = 0"
proof -
  have all: "trace s2 = trace s1 @ leg_events s1 s2 \<and> (\<forall>b. clears_ok alg b (leg_events s1 s2))
      \<and> data s2 = data s1 \<and> attempts s1 s2 \<le> unat iterations
      \<and> (\<not> multi_run \<longrightarrow> attempts s1 s2 = 0)"
  proof (cases "\<exists>pe. r1 = Returned pe \<and> pe \<noteq> []")
    case False
    with sp pt have "s2 = s1"
      by (cases r1) (auto simp: PathTest_def split: if_splits)
    then show ?thesis by (simp add: leg_events_def attempts_def)
  next
    case True
    then obtain pe where r1: "r1 = Returned pe" "pe \<noteq> []" by blast
    show ?thesis
    proof (cases multi_run)
      case False
      with sp pt r1 have "s2 = call_Clear alg s1"
        by (simp add: PathTest_def Let_def)
      then show ?thesis
        by (simp add: leg_events_def attempts_def call_Clear_def)
    next
      case True
      with sp pt r1 have mb:
        "multi_run_block env orig dest alg mc mode iterations (trip_path_build env pe orig dest)
           (call_Clear alg s1) = (r, s2)"
        by (simp add: PathTest_def Let_def)
      note f = multi_run_block_events [OF mb]
      have "trace s2 = trace s1 @ (Clear alg # leg_events (call_Clear alg s1) s2)"
        using f(1) by (simp add: call_Clear_def)
      then have ev: "leg_events s1 s2 = Clear alg # leg_events (call_Clear alg s1) s2"
        by (rule leg_events_eq)
      with f True show ?thesis
        by (simp add: attempts_def call_Clear_def)
    qed
  qed
  then show "trace s2 = trace s1 @ leg_events s1 s2"
    and "\<And>b. clears_ok alg b (leg_events s1 s2)"
    and "data s2 = data s1"
    and "attempts s1 s2 \<le> unat iterations"
    and "\<not> multi_run \<Longrightarrow> attempts s1 s2 = 0"
    by simp_all
qed

text \<open>
  C4. The passes of a leg (lines 88-116, \<open>search_passes\<close>) call the search at least once
  and at most three times, and each call that returns adds one to the pass counter. What
  PathTest does after the passes leaves the pass counter alone and searches again only in
  the multi-run block, at most \<^verbatim>\<open>iterations\<close> times. Over the whole call of PathTest,
  diagnostic runs included, every search after the first is preceded by a \<^verbatim>\<open>Clear\<close>
  of the same algorithm object, with no call of that object in between.
\<close>

theorem path_test_attempts:
  "let s1 = snd (search_passes env orig dest alg mc mode using_astar st);
       s2 = snd (PathTest env orig dest alg mc mode multi_run iterations using_astar st)
   in trace s1 = trace st @ leg_events st s1
      \<and> 1 \<le> attempts st s1 \<and> attempts st s1 \<le> 3
      \<and> (\<forall>pathedges. fst (search_passes env orig dest alg mc mode using_astar st) = Returned pathedges
            \<longrightarrow> passes (data s1) = passes (data st) + of_nat (attempts st s1))
      \<and> trace s2 = trace st @ leg_events st s2
      \<and> leg_events st s2 = leg_events st s1 @ leg_events s1 s2
      \<and> passes (data s2) = passes (data s1)
      \<and> attempts s1 s2 \<le> unat iterations
      \<and> (\<not> multi_run \<longrightarrow> attempts s1 s2 = 0)
      \<and> clears_ok alg True (leg_events st s2)"
proof -
  obtain r1 s1 where sp: "search_passes env orig dest alg mc mode using_astar st = (r1, s1)"
    by (cases "search_passes env orig dest alg mc mode using_astar st")
  obtain r s2 where pt:
    "PathTest env orig dest alg mc mode multi_run iterations using_astar st = (r, s2)"
    by (cases "PathTest env orig dest alg mc mode multi_run iterations using_astar st")
  note a = search_passes_events [OF sp]
  note b = PathTest_events [OF sp pt]
  have st: "steps st s1" "steps s1 s2"
    using a(1) b(1) by (simp_all add: steps_def)
  note t = steps_trans [OF st]
  have "clears_ok alg True (leg_events st s2)"
    unfolding t(2) using a(4) b(2) by (rule clears_ok_append)
  with a b t show ?thesis
    by (auto simp add: sp pt steps_def)
qed

text \<open>
  In the small world the direct search from B to A under \<open>auto\<close> finds nothing: three
  passes, the second and third each after a \<^verbatim>\<open>Clear\<close>.
\<close>

theorem path_test_attempts_witness:
  "attempts st_init (snd (search_passes demo_env wp_b wp_a AStar mc_auto kDrive True st_init)) = 3
   \<and> passes (data (snd (PathTest demo_env wp_b wp_a AStar mc_auto kDrive False 0 True st_init))) = 3
   \<and> leg_events st_init (snd (PathTest demo_env wp_b wp_a AStar mc_auto kDrive False 0 True st_init))
       = [GetBestPath AStar wp_b wp_a, Clear AStar, RelaxHierarchyLimits 1 4,
          GetBestPath AStar wp_b wp_a, DisableHighwayTransitions, Clear AStar,
          GetBestPath AStar wp_b wp_a]
   \<and> clears_ok AStar True
        (leg_events st_init (snd (PathTest demo_env wp_b wp_a AStar mc_auto kDrive False 0 True st_init)))"
proof -
  have e: "leg_events st_init (snd (PathTest demo_env wp_b wp_a AStar mc_auto kDrive False 0 True st_init))
       = [GetBestPath AStar wp_b wp_a, Clear AStar, RelaxHierarchyLimits 1 4,
          GetBestPath AStar wp_b wp_a, DisableHighwayTransitions, Clear AStar,
          GetBestPath AStar wp_b wp_a]"
    by code_simp
  have a: "attempts st_init (snd (search_passes demo_env wp_b wp_a AStar mc_auto kDrive True st_init)) = 3"
    by code_simp
  have p: "passes (data (snd (PathTest demo_env wp_b wp_a AStar mc_auto kDrive False 0 True st_init))) = 3"
    by code_simp
  from path_test_attempts [of demo_env wp_b wp_a AStar mc_auto kDrive True st_init False 0]
  have "clears_ok AStar True
        (leg_events st_init (snd (PathTest demo_env wp_b wp_a AStar mc_auto kDrive False 0 True st_init)))"
    unfolding Let_def by blast
  with e a p show ?thesis by simp
qed

text \<open>
  C2 (as the code has it). Let the first search of a leg return an empty path and let the
  cost object of the mode not allow a second pass. When the algorithm is not the direct
  one, PathTest returns the empty trip path after this one pass and one search. When it
  is the direct one, PathTest disables the highway transitions, clears the algorithm and
  searches once more; if that search is empty too, it returns the empty trip path after
  two passes.
\<close>

theorem first_pass_empty_not_eligible:
  assumes first: "best_path env (trace st) alg orig dest mc mode = Some []"
      and cost: "mc mode = Some cost"
      and inel: "\<not> AllowMultiPass env cost"
  shows "(\<not> using_astar \<longrightarrow>
            PathTest env orig dest alg mc mode multi_run iterations using_astar st
              = (Returned \<lparr>node = []\<rparr>,
                 st\<lparr>trace := trace st @ [GetBestPath alg orig dest],
                    data := incPasses (data st)\<rparr>))
       \<and> (using_astar \<longrightarrow>
            trace (snd (search_passes env orig dest alg mc mode using_astar st))
              = trace st @ [GetBestPath alg orig dest, DisableHighwayTransitions, Clear alg,
                            GetBestPath alg orig dest]
            \<and> (best_path env (trace st @ [GetBestPath alg orig dest, DisableHighwayTransitions,
                                           Clear alg]) alg orig dest mc mode = Some []
                 \<longrightarrow> PathTest env orig dest alg mc mode multi_run iterations using_astar st
                       = (Returned \<lparr>node = []\<rparr>,
                          st\<lparr>trace := trace st @ [GetBestPath alg orig dest,
                                DisableHighwayTransitions, Clear alg, GetBestPath alg orig dest],
                             data := incPasses (incPasses (data st))\<rparr>)))"
proof -
  have two: "second_pass env orig dest alg mc mode using_astar []
               (count_pass (st\<lparr>trace := trace st @ [GetBestPath alg orig dest]\<rparr>))
             = (Returned [], count_pass (st\<lparr>trace := trace st @ [GetBestPath alg orig dest]\<rparr>))"
    using cost inel by (simp add: second_pass_def)
  have sp: "search_passes env orig dest alg mc mode using_astar st
              = third_pass env orig dest alg mc mode using_astar []
                  (count_pass (st\<lparr>trace := trace st @ [GetBestPath alg orig dest]\<rparr>))"
    using first two by (simp add: search_passes_def call_GetBestPath_def)
  show ?thesis
  proof (cases using_astar)
    case False
    with sp have "search_passes env orig dest alg mc mode using_astar st
                    = (Returned [], count_pass (st\<lparr>trace := trace st @ [GetBestPath alg orig dest]\<rparr>))"
      by (simp add: third_pass_def)
    with False show ?thesis
      by (simp add: PathTest_def count_pass_def)
  next
    case True
    let ?h = "trace st @ [GetBestPath alg orig dest, DisableHighwayTransitions, Clear alg]"
    from sp True cost
    have t: "trace (snd (search_passes env orig dest alg mc mode using_astar st))
               = ?h @ [GetBestPath alg orig dest]"
      by (simp add: third_pass_def call_GetBestPath_def call_Clear_def call_cost_def
          count_pass_def Let_def split: option.splits)
    have "PathTest env orig dest alg mc mode multi_run iterations using_astar st
            = (Returned \<lparr>node = []\<rparr>,
               st\<lparr>trace := ?h @ [GetBestPath alg orig dest],
                  data := incPasses (incPasses (data st))\<rparr>)"
      if "best_path env ?h alg orig dest mc mode = Some []"
      using sp True cost that
      by (simp add: PathTest_def third_pass_def call_GetBestPath_def call_Clear_def
          call_cost_def count_pass_def Let_def)
    with t True show ?thesis by simp
  qed
qed

text \<open>Both cases in the small world, under the \<open>bicycle\<close> costing.\<close>

theorem first_pass_empty_not_eligible_witness:
  "best_path demo_env (trace st_init) Bidirectional wp_b wp_c mc_bicycle kBicycle = Some []
   \<and> mc_bicycle kBicycle = Some demo_bicycle
   \<and> \<not> AllowMultiPass demo_env demo_bicycle
   \<and> PathTest demo_env wp_b wp_c Bidirectional mc_bicycle kBicycle False 0 False st_init
       = (Returned \<lparr>node = []\<rparr>,
          st_init\<lparr>trace := [GetBestPath Bidirectional wp_b wp_c],
                  data := incPasses (data st_init)\<rparr>)
   \<and> trace (snd (search_passes demo_env wp_b wp_a AStar mc_bicycle kBicycle True st_init))
       = [GetBestPath AStar wp_b wp_a, DisableHighwayTransitions, Clear AStar,
          GetBestPath AStar wp_b wp_a]"
proof -
  have f: "best_path demo_env (trace st_init) Bidirectional wp_b wp_c mc_bicycle kBicycle = Some []"
    by code_simp
  have f': "best_path demo_env (trace st_init) AStar wp_b wp_a mc_bicycle kBicycle = Some []"
    by code_simp
  have c: "mc_bicycle kBicycle = Some demo_bicycle"
    by (simp add: mc_bicycle_def)
  have i: "\<not> AllowMultiPass demo_env demo_bicycle"
    by code_simp
  have t: "trace st_init = []"
    by (simp add: st_init_def)
  from first_pass_empty_not_eligible [OF f c i, of False False 0]
       first_pass_empty_not_eligible [OF f' c i, of True False 0] f c i t
  show ?thesis by simp
qed

text \<open>
  C2 as stated fails for the direct algorithm: the first search from B to A is empty and
  \<open>bicycle\<close> does not allow a second pass, yet PathTest searches twice and counts two
  passes.
\<close>

theorem direct_second_attempt_counterexample:
  "best_path demo_env (trace st_init) AStar wp_b wp_a mc_bicycle kBicycle = Some []
   \<and> mc_bicycle kBicycle = Some demo_bicycle
   \<and> \<not> AllowMultiPass demo_env demo_bicycle
   \<and> passes (data st_init) = 0
   \<and> passes (data (snd (PathTest demo_env wp_b wp_a AStar mc_bicycle kBicycle False 0 True st_init))) = 2
   \<and> trace (snd (PathTest demo_env wp_b wp_a AStar mc_bicycle kBicycle False 0 True st_init))
       = [GetBestPath AStar wp_b wp_a, DisableHighwayTransitions, Clear AStar,
          GetBestPath AStar wp_b wp_a]"
  by code_simp

subsection \<open>The multi-run block\<close>

lemma rerun_loop_returned:
  assumes "rerun_loop env orig dest alg mc mode k totalms st = (Returned t, st')"
  shows "length (filter is_search (leg_events st st')) = k"
  using assms
proof (induction k arbitrary: totalms st)
  case 0
  then show ?case by (simp add: leg_events_def)
next
  case (Suc k)
  obtain r1 st1 where c1: "call_GetBestPath env alg orig dest mc mode st = (r1, st1)"
    by (cases "call_GetBestPath env alg orig dest mc mode st")
  note f1 = first_search_events [OF c1]
  from Suc.prems c1 obtain pathedges where r1: "r1 = Some pathedges"
    by (cases r1) auto
  with Suc.prems c1
  have rec: "rerun_loop env orig dest alg mc mode k (totalms + search_ms env (trace st))
          (call_Clear alg st1) = (Returned t, st')"
    by simp
  note ev = rerun_loop_events [OF rec]
  have "trace st' = trace st @ (GetBestPath alg orig dest # Clear alg
                                  # leg_events (call_Clear alg st1) st')"
    using ev f1(1) by (simp add: call_Clear_def)
  then have "leg_events st st' = GetBestPath alg orig dest # Clear alg
                                  # leg_events (call_Clear alg st1) st'"
    by (rule leg_events_eq)
  with Suc.IH [OF rec] show ?case by simp
qed

lemma rerun_loop_trace:
  assumes "rerun_loop env orig dest alg mc mode k totalms st = (Returned t, st')"
  shows "trace st' = trace st @ concat (replicate k [GetBestPath alg orig dest, Clear alg])"
  using assms
proof (induction k arbitrary: totalms st)
  case 0
  then show ?case by simp
next
  case (Suc k)
  obtain r1 st1 where c1: "call_GetBestPath env alg orig dest mc mode st = (r1, st1)"
    by (cases "call_GetBestPath env alg orig dest mc mode st")
  note f1 = first_search_events [OF c1]
  from Suc.prems c1 obtain pathedges where r1: "r1 = Some pathedges"
    by (cases r1) auto
  with Suc.prems c1
  have rec: "rerun_loop env orig dest alg mc mode k (totalms + search_ms env (trace st))
          (call_Clear alg st1) = (Returned t, st')"
    by simp
  from Suc.IH [OF rec] f1(1) show ?case
    by (simp add: call_Clear_def)
qed

lemma record_leg_data:
  assumes "data st = data st'"
  shows "fst (record_leg env u p q tp st) = fst (record_leg env u p q tp st')"
    and "data (snd (record_leg env u p q tp st)) = data (snd (record_leg env u p q tp st'))"
  using assms by (simp_all add: record_leg_def split: prod.splits)

text \<open>
  C9 (as the code has it). Let the passes of a leg have found a path, and let the multi-run
  block re-issue the search \<^verbatim>\<open>iterations\<close> times, at least once, each run returning.
  Then PathTest returns the trip path it returns without the block, and the statistics
  object is the one the passes left: pass counter, outcome, trip time, trip distance and
  maneuver count are untouched, and what \<^verbatim>\<open>main\<close> records for the leg afterwards is
  the same. The re-runs add one average to the logged averages, and they add
  \<^verbatim>\<open>iterations\<close> searches, each followed by a \<^verbatim>\<open>Clear\<close>, to the history of the
  run, over which the runtime of the final record is measured.
\<close>

theorem multi_run_frame:
  assumes found: "search_passes env orig dest alg mc mode ua st = (Returned pathedges, st1)"
      and nonempty: "pathedges \<noteq> []"
      and n: "iterations \<noteq> 0"
      and reruns: "rerun_loop env orig dest alg mc mode (unat iterations) 0 (call_Clear alg st1)
                     = (Returned totalms, st2)"
  shows "PathTest env orig dest alg mc mode False iterations ua st
           = (Returned (trip_path_build env pathedges orig dest), call_Clear alg st1)
       \<and> PathTest env orig dest alg mc mode True iterations ua st
           = (Returned (trip_path_build env pathedges orig dest),
              st2\<lparr>averages := averages st2 @ [totalms div iterations]\<rparr>)
       \<and> data st2 = data st1
       \<and> averages st2 = averages st1
       \<and> attempts (call_Clear alg st1) st2 = unat iterations
       \<and> trace st2 = trace st1 @ Clear alg
                        # concat (replicate (unat iterations) [GetBestPath alg orig dest, Clear alg])
       \<and> fst (record_leg env u orig dest (trip_path_build env pathedges orig dest)
                 (st2\<lparr>averages := averages st2 @ [totalms div iterations]\<rparr>))
           = fst (record_leg env u orig dest (trip_path_build env pathedges orig dest)
                    (call_Clear alg st1))
       \<and> data (snd (record_leg env u orig dest (trip_path_build env pathedges orig dest)
                        (st2\<lparr>averages := averages st2 @ [totalms div iterations]\<rparr>)))
           = data (snd (record_leg env u orig dest (trip_path_build env pathedges orig dest)
                          (call_Clear alg st1)))"
proof -
  note ev = rerun_loop_events [OF reruns]
  have d: "data st2 = data st1" and a: "averages st2 = averages st1"
    using ev by (simp_all add: call_Clear_def)
  have plain: "PathTest env orig dest alg mc mode False iterations ua st
           = (Returned (trip_path_build env pathedges orig dest), call_Clear alg st1)"
    using found nonempty by (simp add: PathTest_def Let_def)
  have multi: "PathTest env orig dest alg mc mode True iterations ua st
           = (Returned (trip_path_build env pathedges orig dest),
              st2\<lparr>averages := averages st2 @ [totalms div iterations]\<rparr>)"
    using found nonempty n reruns by (simp add: PathTest_def multi_run_block_def Let_def)
  have k: "attempts (call_Clear alg st1) st2 = unat iterations"
    using rerun_loop_returned [OF reruns] by (simp add: attempts_def)
  have dd: "data (st2\<lparr>averages := averages st2 @ [totalms div iterations]\<rparr>)
              = data (call_Clear alg st1)"
    using d by (simp add: call_Clear_def)
  note rl = record_leg_data [OF dd, where env = env and u = u and p = orig and q = dest
              and tp = "trip_path_build env pathedges orig dest"]
  have t: "trace st2 = trace st1 @ Clear alg
             # concat (replicate (unat iterations) [GetBestPath alg orig dest, Clear alg])"
    using rerun_loop_trace [OF reruns] by (simp add: call_Clear_def)
  from plain multi d a k t rl show ?thesis by simp
qed

text \<open>Two re-runs of the search from A to B, each measured at 4 ms.\<close>

theorem multi_run_frame_witness:
  "search_passes demo_env wp_a wp_b AStar mc_auto kDrive True st_init = (Returned found_path, st_found)
   \<and> found_path \<noteq> []
   \<and> (2 :: u32) \<noteq> 0
   \<and> rerun_loop demo_env wp_a wp_b AStar mc_auto kDrive (unat (2 :: u32)) 0
         (call_Clear AStar st_found) = (Returned 8, st_rerun)
   \<and> PathTest demo_env wp_a wp_b AStar mc_auto kDrive False 2 True st_init
       = (Returned (trip_path_build demo_env found_path wp_a wp_b), call_Clear AStar st_found)
   \<and> PathTest demo_env wp_a wp_b AStar mc_auto kDrive True 2 True st_init
       = (Returned (trip_path_build demo_env found_path wp_a wp_b),
          st_rerun\<lparr>averages := averages st_rerun @ [8 div 2]\<rparr>)
   \<and> data st_rerun = data st_found
   \<and> attempts (call_Clear AStar st_found) st_rerun = unat (2 :: u32)
   \<and> data (snd (record_leg demo_env kKilometers wp_a wp_b
                   (trip_path_build demo_env found_path wp_a wp_b)
                   (st_rerun\<lparr>averages := averages st_rerun @ [8 div 2]\<rparr>)))
       = data (snd (record_leg demo_env kKilometers wp_a wp_b
                      (trip_path_build demo_env found_path wp_a wp_b)
                      (call_Clear AStar st_found)))"
proof -
  have h1: "search_passes demo_env wp_a wp_b AStar mc_auto kDrive True st_init
              = (Returned found_path, st_found)"
    by code_simp
  have h2: "found_path \<noteq> []"
    by (simp add: found_path_def)
  have h3: "(2 :: u32) \<noteq> 0"
    by simp
  have h4: "rerun_loop demo_env wp_a wp_b AStar mc_auto kDrive (unat (2 :: u32)) 0
              (call_Clear AStar st_found) = (Returned 8, st_rerun)"
    by code_simp
  from multi_run_frame [OF h1 h2 h3 h4, of kKilometers] h1 h2 h3 h4
  show ?thesis by blast
qed

text \<open>
  C9 as stated fails in three ways, shown on the request from A to B. With
  \<^verbatim>\<open>--multi-run 0\<close> the average divides by zero and no record is logged, where the
  run without the block logs a success. Where the re-issued search throws, the exception
  leaves PathTest, \<^verbatim>\<open>main\<close> classifies the leg from the empty trip path it held before,
  and the record says \<open>fail_no_route\<close> with zero trip fields. And where the clock of the
  run counts the searches, two re-runs raise the runtime of the record from 4 to 12.
\<close>

theorem multi_run_changes_record_counterexample:
  "main demo_env demo_config demo_request [loc_a, loc_b] ''auto'' False False 0 kKilometers
     = \<lparr>exit_code = EXIT_SUCCESS,
        statistics = [[Float 40, Float (- 73), Float 41, Float (- 74), Str ''success'',
                       UInt 1, UInt 50, UInt 100, Float 2, Float 3, UInt 3]],
        history = [GetBestPath AStar wp_a wp_b, Clear AStar]\<rparr>
   \<and> main demo_env demo_config demo_request [loc_a, loc_b] ''auto'' False True 0 kKilometers
     = \<lparr>exit_code = UndefinedBehaviour, statistics = [], history = []\<rparr>
   \<and> statistics (main throwing_env demo_config demo_request [loc_a, loc_b] ''auto'' False False 1
                    kKilometers)
     = [[Float 40, Float (- 73), Float 41, Float (- 74), Str ''success'',
         UInt 1, UInt 50, UInt 100, Float 2, Float 3, UInt 3]]
   \<and> statistics (main throwing_env demo_config demo_request [loc_a, loc_b] ''auto'' False True 1
                    kKilometers)
     = [[Float 40, Float (- 73), Float 41, Float (- 74), Str ''fail_no_route'',
         UInt 1, UInt 50, UInt 0, Float 0, Float 3, UInt 0]]
   \<and> statistics (main clock_env demo_config demo_request [loc_a, loc_b] ''auto'' False False 2
                    kKilometers)
     = [[Float 40, Float (- 73), Float 41, Float (- 74), Str ''success'',
         UInt 1, UInt 4, UInt 100, Float 2, Float 3, UInt 3]]
   \<and> statistics (main clock_env demo_config demo_request [loc_a, loc_b] ''auto'' False True 2
                    kKilometers)
     = [[Float 40, Float (- 73), Float 41, Float (- 74), Str ''success'',
         UInt 1, UInt 12, UInt 100, Float 2, Float 3, UInt 3]]"
  by code_simp

subsection \<open>The legs and the exits of main\<close>

lemma any_unreachable_fold:
  "fold (\<lambda>edge u. if unreachable env (edge_id edge) then True else u) es b
     = (b \<or> (\<exists>e\<in>set es. unreachable env (edge_id e)))"
  by (induction es arbitrary: b) auto

lemma any_unreachable_iff:
  "any_unreachable env pl = (\<exists>e\<in>set (edges pl). unreachable env (edge_id e))"
  by (simp add: any_unreachable_def any_unreachable_fold)

lemma PathTest_empty:
  assumes "search_passes env orig dest alg mc mode ua st = (Returned [], st1)"
  shows "PathTest env orig dest alg mc mode multi_run iterations ua st = (Returned \<lparr>node = []\<rparr>, st1)"
  using assms by (simp add: PathTest_def)

text \<open>
  C7. When the passes of a leg end with an empty path, \<^verbatim>\<open>main\<close> holds the empty trip
  path and sets the outcome from the unreachable flags of the candidate edges alone: both
  waypoints have an unreachable candidate, only the origin has, only the destination has,
  or neither. Nothing else of the statistics object changes.
\<close>

theorem failed_leg_outcome:
  assumes "search_passes env pl1 pl2 (choose_algorithm routetype pl1 pl2) mc mode
             (choose_algorithm routetype pl1 pl2 = AStar) (snd s) = (Returned [], st1)"
  shows "run_leg env routetype mc mode multi_run iterations u pl1 pl2 s
           = Some (\<lparr>node = []\<rparr>,
                   st1\<lparr>data := (data st1)\<lparr>success :=
                     (if (\<exists>e\<in>set (edges pl1). unreachable env (edge_id e))
                          \<and> (\<exists>e\<in>set (edges pl2). unreachable env (edge_id e))
                      then ''fail_unreachable_locations''
                      else if (\<exists>e\<in>set (edges pl1). unreachable env (edge_id e))
                      then ''fail_unreachable_origin''
                      else if (\<exists>e\<in>set (edges pl2). unreachable env (edge_id e))
                      then ''fail_unreachable_dest''
                      else ''fail_no_route'')\<rparr>\<rparr>)"
  using PathTest_empty [OF assms, of multi_run iterations]
  by (simp add: run_leg_def record_leg_def failure_kind_def setSuccess_def any_unreachable_iff)

text \<open>From B to C under \<open>bicycle\<close>: no path, and C's edge 7 is unreachable.\<close>

theorem failed_leg_outcome_witness:
  "search_passes demo_env wp_b wp_c (choose_algorithm ''bicycle'' wp_b wp_c) mc_bicycle kBicycle
      (choose_algorithm ''bicycle'' wp_b wp_c = AStar) (snd (\<lparr>node = [5]\<rparr>, st_init))
     = (Returned [], st_bc)
   \<and> run_leg demo_env ''bicycle'' mc_bicycle kBicycle False 0 kKilometers wp_b wp_c
        (\<lparr>node = [5]\<rparr>, st_init)
     = Some (\<lparr>node = []\<rparr>, st_bc\<lparr>data := (data st_bc)\<lparr>success := ''fail_unreachable_dest''\<rparr>\<rparr>)"
proof -
  have h: "search_passes demo_env wp_b wp_c (choose_algorithm ''bicycle'' wp_b wp_c) mc_bicycle
      kBicycle (choose_algorithm ''bicycle'' wp_b wp_c = AStar) (snd (\<lparr>node = [5]\<rparr>, st_init))
     = (Returned [], st_bc)"
    by code_simp
  have u: "unreachable demo_env = (\<lambda>i. i = 7)"
    by (simp add: demo_env_def)
  from failed_leg_outcome [OF h, of False 0 kKilometers] h
  show ?thesis
    by (simp add: u wp_b_def wp_c_def)
qed













text \<open>
  C3, evaluated. A and B both lie in color 1, so the color's membership count over the
  request is 2, the number of waypoints. The program asks for the colors of the last
  waypoint only: its count for color 1 is 1, it finds the request not connected and exits
  with \<open>fail_no_connectivity\<close>.
\<close>

theorem connectivity_last_waypoint_only:
  "waypoints_in_color demo_env [wp_a, wp_b] 1 = 2
   \<and> count_colors (get_colors demo_env (last [wp_a, wp_b])) [] = [(1, 1)]
   \<and> \<not> connected_flag demo_env [wp_a, wp_b] 2
   \<and> main demo_env demo_config demo_request [loc_a, loc_b] ''auto'' True False 0 kKilometers
       = \<lparr>exit_code = EXIT_FAILURE,
          statistics = [[Float 40, Float (- 73), Float 41, Float (- 74),
                         Str ''fail_no_connectivity'', UInt 0, UInt 0, UInt 0,
                         Float 0, Float 0, UInt 0]],
          history = []\<rparr>"
  by code_simp



subsection \<open>The statistics record\<close>

lemma but_passes_refl [simp]: "but_passes d d"
  by (simp add: but_passes_def)


lemma but_passes_incPasses [simp]: "but_passes d (incPasses d)"
  by (simp add: but_passes_def incPasses_def)






























end
